theory Spec2Isabelle
  imports Main
begin

section \<open>Run-time values\<close>

text \<open>
  TypeScript's type parameters are erased when the library runs, so the payload slot of
  a wrapper holds an arbitrary JavaScript value. \<open>jsval\<close> is the universe of such values
  that the library and its tests handle: the two missing markers, primitives, references
  to \<open>Error\<close> objects (an address, so that two objects with equal fields are still two
  objects), arrays, and the wrappers themselves, which nest.

  \<open>OptionImpl\<close> and \<open>ResultImpl\<close> are the two classes of \<open>src/private\<close>: each has a private
  constructor taking a boolean tag and a payload, and no method assigns a field afterwards.
  The source calls the fields \<open>isNone_\<close>, \<open>isErr_\<close> and \<open>value\<close>; none of the three is
  a name Isabelle accepts for a selector, hence \<open>isNone_field\<close>, \<open>isErr_field\<close> and
  \<open>value_field\<close> (written \<open>OptionImpl.value_field\<close> and \<open>ResultImpl.value_field\<close>, one per
  class). Numbers are integers: the library never computes with a payload.
\<close>

datatype jsval =
    JUndefined
  | JNull
  | JBoolean bool
  | JNumber int
  | JString string
  | JError nat
  | JArray "jsval list"
  | JOption OptionImpl
  | JResult ResultImpl
and OptionImpl = OptionImpl (isNone_field: bool) (value_field: jsval)
and ResultImpl = ResultImpl (isErr_field: bool) (value_field: jsval)

section \<open>Effects: raised values, the object store, callbacks\<close>

text \<open>
  \<open>Error\<close> objects live in a store, a list indexed by address; \<open>JError a\<close> refers to the
  object at address \<open>a\<close>. Allocation appends, so the address of a new object is the length
  of the store before the allocation and differs from every address in use.
\<close>

record error_obj =
  name :: string
  message :: string

type_synonym heap = "error_obj list"

text \<open>
  A computation runs in a state \<open>'s\<close> and either returns a value (\<open>Inr\<close>) or raises a
  JavaScript value (\<open>Inl\<close>, what a \<open>throw\<close> statement throws), and leaves a new state.
\<close>

type_synonym ('a, 's) js = "'s \<Rightarrow> (jsval + 'a) \<times> 's"

definition js_return :: "'a \<Rightarrow> ('a, 's) js" where
  "js_return v = (\<lambda>s. (Inr v, s))"

definition js_throw :: "jsval \<Rightarrow> ('a, 's) js" where
  "js_throw e = (\<lambda>s. (Inl e, s))"

definition js_bind :: "('a, 's) js \<Rightarrow> ('a \<Rightarrow> ('b, 's) js) \<Rightarrow> ('b, 's) js" where
  "js_bind m f = (\<lambda>s. case m s of (Inl e, s') \<Rightarrow> (Inl e, s') | (Inr v, s') \<Rightarrow> f v s')"

text \<open>
  The host's \<open>new Error(message)\<close>: a new object whose \<open>message\<close> is the argument and whose
  \<open>name\<close> is the inherited \<open>"Error"\<close>.
\<close>

definition Error_new :: "string \<Rightarrow> (nat, heap) js" where
  "Error_new msg = (\<lambda>h. (Inr (length h), h @ [\<lparr>name = ''Error'', message = msg\<rparr>]))"

text \<open>The assignment \<open>this.name = n\<close> on the object at address \<open>this\<close>.\<close>

definition set_name :: "nat \<Rightarrow> string \<Rightarrow> (unit, heap) js" where
  "set_name this n =
     (\<lambda>h. (Inr (), if this < length h then h[this := (h ! this)\<lparr>name := n\<rparr>] else h))"

text \<open>
  \<open>class UnwrapError extends Error {
     constructor(message) { super(message); this.name = "UnwrapError"; } }\<close>
\<close>

definition UnwrapError_new :: "string \<Rightarrow> (jsval, heap) js" where
  "UnwrapError_new msg =
     js_bind (Error_new msg) (\<lambda>this.
     js_bind (set_name this ''UnwrapError'') (\<lambda>_.
     js_return (JError this)))"

text \<open>
  What a test reads from a caught error: \<open>error.name\<close> and \<open>error.message\<close> of the raised
  object, looked up in the store the call left behind.
\<close>

definition thrown_name :: "(jsval + 'a) \<times> heap \<Rightarrow> string option" where
  "thrown_name r =
     (case r of
        (Inl (JError a), h) \<Rightarrow> (if a < length h then Some (name (h ! a)) else None)
      | _ \<Rightarrow> None)"

definition thrown_message :: "(jsval + 'a) \<times> heap \<Rightarrow> string option" where
  "thrown_message r =
     (case r of
        (Inl (JError a), h) \<Rightarrow> (if a < length h then Some (message (h ! a)) else None)
      | _ \<Rightarrow> None)"

text \<open>
  A callback receives its argument list and is a computation. \<open>jest.fn(impl)\<close>, the
  instrumented callback of the test suites, appends the argument list of every call to its
  \<open>mock.calls\<close> (the state here) and returns what \<open>impl\<close> returns.
\<close>

definition jest_fn :: "(jsval list \<Rightarrow> jsval) \<Rightarrow> jsval list \<Rightarrow> (jsval, jsval list list) js" where
  "jest_fn impl args = (\<lambda>calls. (Inr (impl args), calls @ [args]))"

section \<open>OptionImpl: constructors and the \<open>match\<close> primitive\<close>

text \<open>\<open>static some(value) { return new OptionImpl(false, value); }\<close>\<close>

definition OptionImpl_some :: "jsval \<Rightarrow> OptionImpl" where
  "OptionImpl_some v = OptionImpl False v"

text \<open>\<open>static none() { return new OptionImpl(true, undefined); }\<close>\<close>

definition OptionImpl_none :: "unit \<Rightarrow> OptionImpl" where
  "OptionImpl_none u = OptionImpl True JUndefined"

definition OptionImpl_isNone :: "OptionImpl \<Rightarrow> bool" where
  "OptionImpl_isNone this = isNone_field this"

definition OptionImpl_isSome :: "OptionImpl \<Rightarrow> bool" where
  "OptionImpl_isSome this = (\<not> OptionImpl_isNone this)"

text \<open>
  \<open>match(matcher)\<close> calls \<open>matcher.none()\<close> when \<open>this.isNone()\<close> and
  \<open>matcher.some(this.value)\<close> otherwise, and returns what the callback returns. The two
  callbacks are the two function arguments; the result type \<open>'r\<close> is whatever the callbacks
  produce, a plain value or a computation with effects.
\<close>

definition OptionImpl_match :: "OptionImpl \<Rightarrow> (unit \<Rightarrow> 'r) \<Rightarrow> (jsval \<Rightarrow> 'r) \<Rightarrow> 'r" where
  "OptionImpl_match this none_cb some_cb =
     (if OptionImpl_isNone this then none_cb () else some_cb (OptionImpl.value_field this))"

section \<open>ResultImpl: constructors and the \<open>match\<close> primitive\<close>

text \<open>\<open>static ok(value) { return new ResultImpl(false, value); }\<close>\<close>

definition ResultImpl_ok :: "jsval \<Rightarrow> ResultImpl" where
  "ResultImpl_ok v = ResultImpl False v"

text \<open>\<open>static err(error) { return new ResultImpl(true, error); }\<close>\<close>

definition ResultImpl_err :: "jsval \<Rightarrow> ResultImpl" where
  "ResultImpl_err e = ResultImpl True e"

definition ResultImpl_isOk :: "ResultImpl \<Rightarrow> bool" where
  "ResultImpl_isOk this = (\<not> isErr_field this)"

definition ResultImpl_isErr :: "ResultImpl \<Rightarrow> bool" where
  "ResultImpl_isErr this = isErr_field this"

text \<open>
  \<open>match(matcher)\<close> reads the tag directly: \<open>matcher.err(this.value)\<close> when \<open>this.isErr_\<close>,
  \<open>matcher.ok(this.value)\<close> otherwise. The argument order is that of the matcher object's
  type, \<open>{ ok, err }\<close>.
\<close>

definition ResultImpl_match :: "ResultImpl \<Rightarrow> (jsval \<Rightarrow> 'r) \<Rightarrow> (jsval \<Rightarrow> 'r) \<Rightarrow> 'r" where
  "ResultImpl_match this ok_cb err_cb =
     (if isErr_field this then err_cb (ResultImpl.value_field this)
      else ok_cb (ResultImpl.value_field this))"

text \<open>
  \<open>reverse() { return this.match({ ok: t => ResultImpl.err(t), err: e => ResultImpl.ok(e) }); }\<close>
\<close>

definition ResultImpl_reverse :: "ResultImpl \<Rightarrow> ResultImpl" where
  "ResultImpl_reverse this =
     ResultImpl_match this (\<lambda>t. ResultImpl_err t) (\<lambda>e. ResultImpl_ok e)"

section \<open>OptionImpl: the operations the claims are about\<close>

text \<open>
  \<open>expect(message: string | Error) {
     return this.match({
       none: () => {
         const error = "string" === typeof message ? new UnwrapError(message) : message;
         throw error; },
       some: value => value }); }\<close>
\<close>

definition OptionImpl_expect :: "OptionImpl \<Rightarrow> jsval \<Rightarrow> (jsval, heap) js" where
  "OptionImpl_expect this msg =
     OptionImpl_match this
       (\<lambda>_. js_bind (case msg of JString s \<Rightarrow> UnwrapError_new s | _ \<Rightarrow> js_return msg)
               (\<lambda>error. js_throw error))
       (\<lambda>v. js_return v)"

text \<open>\<open>unwrap() { return this.expect("Tried to call unwrap() on option.none()"); }\<close>\<close>

definition OptionImpl_unwrap :: "OptionImpl \<Rightarrow> (jsval, heap) js" where
  "OptionImpl_unwrap this =
     OptionImpl_expect this (JString ''Tried to call unwrap() on option.none()'')"

text \<open>
  \<open>unwrapOrElse(defaultValueThunk) {
     return this.match({ none: () => defaultValueThunk(), some: value => value }); }\<close>
\<close>

definition OptionImpl_unwrapOrElse ::
  "OptionImpl \<Rightarrow> (jsval list \<Rightarrow> (jsval, 's) js) \<Rightarrow> (jsval, 's) js" where
  "OptionImpl_unwrapOrElse this defaultValueThunk =
     OptionImpl_match this (\<lambda>_. defaultValueThunk []) (\<lambda>v. js_return v)"

section \<open>ResultImpl: the operations the claims are about\<close>

text \<open>
  \<open>expect(message: string | Error) {
     return this.match({
       ok: value => value,
       err: () => {
         const error = "string" === typeof message ? new UnwrapError(message) : message;
         throw error; } }); }\<close>
\<close>

definition ResultImpl_expect :: "ResultImpl \<Rightarrow> jsval \<Rightarrow> (jsval, heap) js" where
  "ResultImpl_expect this msg =
     ResultImpl_match this
       (\<lambda>v. js_return v)
       (\<lambda>_. js_bind (case msg of JString s \<Rightarrow> UnwrapError_new s | _ \<Rightarrow> js_return msg)
               (\<lambda>error. js_throw error))"

text \<open>\<open>expectErr\<close> is \<open>expect\<close> with the two branches exchanged.\<close>

definition ResultImpl_expectErr :: "ResultImpl \<Rightarrow> jsval \<Rightarrow> (jsval, heap) js" where
  "ResultImpl_expectErr this msg =
     ResultImpl_match this
       (\<lambda>_. js_bind (case msg of JString s \<Rightarrow> UnwrapError_new s | _ \<Rightarrow> js_return msg)
               (\<lambda>error. js_throw error))
       (\<lambda>v. js_return v)"

text \<open>\<open>unwrap() { return this.expect("Tried to call unwrap() on result.err()"); }\<close>\<close>

definition ResultImpl_unwrap :: "ResultImpl \<Rightarrow> (jsval, heap) js" where
  "ResultImpl_unwrap this =
     ResultImpl_expect this (JString ''Tried to call unwrap() on result.err()'')"

text \<open>\<open>unwrapErr() { return this.expectErr("Tried to call unwrapErr() on result.ok()"); }\<close>\<close>

definition ResultImpl_unwrapErr :: "ResultImpl \<Rightarrow> (jsval, heap) js" where
  "ResultImpl_unwrapErr this =
     ResultImpl_expectErr this (JString ''Tried to call unwrapErr() on result.ok()'')"

text \<open>
  \<open>safeUnwrap(this: Result<any, never>): T { return (this as any).value; }\<close>
  The body is one field read: no call, no \<open>throw\<close>. It is a plain function of the receiver.
\<close>

definition ResultImpl_safeUnwrap :: "ResultImpl \<Rightarrow> jsval" where
  "ResultImpl_safeUnwrap this = ResultImpl.value_field this"

text \<open>
  The interface \<open>Result<T, E>\<close> declares, in this order, the members below; among them
  \<open>safeUnwrapErr(this: Result<never, any>): E\<close>, documented as "same as \<open>unwrapErr()\<close>
  except this method will never throw, since \<open>this\<close> cannot be \<open>ok\<close>".
\<close>

definition Result_interface_members :: "string list" where
  "Result_interface_members =
     [''match'', ''ok'', ''err'', ''isOk'', ''isErr'', ''map'', ''mapErr'', ''ifOk'',
      ''ifErr'', ''unwrap'', ''safeUnwrap'', ''safeUnwrapErr'', ''unwrapErr'',
      ''unwrapOrThrowErr'', ''unwrapErrOrThrowOk'', ''expect'', ''expectErr'', ''unwrapOr'',
      ''unwrapOrElse'', ''and'', ''andThen'', ''or'', ''orElse'', ''array'', ''transpose'',
      ''okSatisfies'', ''errSatisfies'', ''reverse'']"

text \<open>
  \<open>class ResultImpl<T, E> implements Result<T, E>\<close> defines these instance methods, in this
  order, and no other; an instance has no property beyond them and its two fields.
\<close>

definition ResultImpl_members :: "string list" where
  "ResultImpl_members =
     [''match'', ''ok'', ''err'', ''isOk'', ''isErr'', ''map'', ''mapErr'', ''ifOk'',
      ''ifErr'', ''unwrap'', ''safeUnwrap'', ''unwrapErr'', ''unwrapOrThrowErr'',
      ''unwrapErrOrThrowOk'', ''expect'', ''expectErr'', ''unwrapOr'', ''unwrapOrElse'',
      ''and'', ''andThen'', ''or'', ''orElse'', ''array'', ''transpose'', ''okSatisfies'',
      ''errSatisfies'', ''reverse'']"

text \<open>
  The call \<open>receiver.m()\<close> on a \<open>ResultImpl\<close> instance, as the host runs it: the property \<open>m\<close>
  is looked up among the methods of the class, and calling a property that is not there
  raises a \<open>TypeError\<close> (\<open>m is not a function\<close>). Of the methods that are there, only
  \<open>safeUnwrap\<close> is followed into its body here; the others have their own definitions above.
\<close>

datatype call_outcome = Returned jsval | TypeError_not_a_function | Other_member

definition ResultImpl_call :: "ResultImpl \<Rightarrow> string \<Rightarrow> call_outcome" where
  "ResultImpl_call this m =
     (if m \<notin> set ResultImpl_members then TypeError_not_a_function
      else if m = ''safeUnwrap'' then Returned (ResultImpl_safeUnwrap this)
      else Other_member)"

text \<open>
  \<open>unwrapOrElse(defaultValueThunk: (error: E) => D) {
     return this.match({ ok: value => value, err: () => defaultValueThunk(this.value) }); }\<close>
\<close>

definition ResultImpl_unwrapOrElse ::
  "ResultImpl \<Rightarrow> (jsval list \<Rightarrow> (jsval, 's) js) \<Rightarrow> (jsval, 's) js" where
  "ResultImpl_unwrapOrElse this defaultValueThunk =
     ResultImpl_match this
       (\<lambda>v. js_return v)
       (\<lambda>_. defaultValueThunk [ResultImpl.value_field this])"

section \<open>The two transposes\<close>

text \<open>
  \<open>OptionImpl.transpose\<close> is declared with \<open>this: Option<Result<U, E>>\<close> and
  \<open>ResultImpl.transpose\<close> with \<open>this: Result<Option<U>, E>\<close>: the compiler admits a call only
  when the payload is a wrapper of the other kind, and the body calls \<open>match\<close> on the payload
  with the other kind's matcher. The model makes the restriction a branch of its own: on a
  payload of another shape the result is \<open>Inl IllTypedReceiver\<close>, so nothing proved about a
  well-typed call rests on what an ill-typed one would do.

  \<open>transpose() {
     return this.match({
       none: () => ResultImpl.ok(OptionImpl.none()),
       some: res => res.match({
         ok: t => ResultImpl.ok(OptionImpl.some(t)),
         err: e => ResultImpl.err(e) }) }); }\<close>
\<close>

datatype type_violation = IllTypedReceiver

definition OptionImpl_transpose :: "OptionImpl \<Rightarrow> type_violation + ResultImpl" where
  "OptionImpl_transpose this =
     OptionImpl_match this
       (\<lambda>_. Inr (ResultImpl_ok (JOption (OptionImpl_none ()))))
       (\<lambda>res. case res of
                 JResult r \<Rightarrow>
                   ResultImpl_match r
                     (\<lambda>t. Inr (ResultImpl_ok (JOption (OptionImpl_some t))))
                     (\<lambda>e. Inr (ResultImpl_err e))
               | _ \<Rightarrow> Inl IllTypedReceiver)"

text \<open>
  \<open>transpose() {
     return this.match({
       ok: opt => opt.match({
         some: t => OptionImpl.some(ResultImpl.ok(t)),
         none: () => OptionImpl.none() }),
       err: e => OptionImpl.some(ResultImpl.err(e)) }); }\<close>
\<close>

definition ResultImpl_transpose :: "ResultImpl \<Rightarrow> type_violation + OptionImpl" where
  "ResultImpl_transpose this =
     ResultImpl_match this
       (\<lambda>opt. case opt of
                 JOption o' \<Rightarrow>
                   OptionImpl_match o'
                     (\<lambda>_. Inr (OptionImpl_none ()))
                     (\<lambda>t. Inr (OptionImpl_some (JResult (ResultImpl_ok t))))
               | _ \<Rightarrow> Inl IllTypedReceiver)
       (\<lambda>e. Inr (OptionImpl_some (JResult (ResultImpl_err e))))"

text \<open>
  The values of type \<open>Option<Result<U, E>>\<close> that the two factories can build: \<open>none()\<close>,
  and \<open>some(r)\<close> for a result \<open>r\<close>. Likewise \<open>Result<Option<U>, E>\<close>: \<open>ok(o)\<close> for an option
  \<open>o\<close> built by the factories, and \<open>err(e)\<close> for any \<open>e\<close>.
\<close>

fun is_Option_of_Result :: "OptionImpl \<Rightarrow> bool" where
  "is_Option_of_Result (OptionImpl True v) = (v = JUndefined)"
| "is_Option_of_Result (OptionImpl False (JResult r)) = True"
| "is_Option_of_Result (OptionImpl False _) = False"

fun is_Result_of_Option :: "ResultImpl \<Rightarrow> bool" where
  "is_Result_of_Option (ResultImpl True e) = True"
| "is_Result_of_Option (ResultImpl False (JOption (OptionImpl True v))) = (v = JUndefined)"
| "is_Result_of_Option (ResultImpl False (JOption (OptionImpl False v))) = True"
| "is_Result_of_Option (ResultImpl False _) = False"

section \<open>The factory namespaces of \<open>index.ts\<close>\<close>

text \<open>
  \<open>fromVoidable(voidable) {
     if (voidable === undefined || voidable === null) { return OptionImpl.none(); }
     else { return OptionImpl.some(voidable); } }\<close>
\<close>

definition option_fromVoidable :: "jsval \<Rightarrow> OptionImpl" where
  "option_fromVoidable voidable =
     (if voidable = JUndefined \<or> voidable = JNull then OptionImpl_none ()
      else OptionImpl_some voidable)"

text \<open>
  \<open>function optionDotAll(options) {
     let values = [];
     for (let i = 0; i < options.length; i++) {
       const option = options[i];
       if (option.isSome()) { values.push((option as any).value); }
       else { return OptionImpl.none(); } }
     return OptionImpl.some(values); }\<close>
  The loop is a function of the index and of the array built so far.
\<close>

function optionDotAll_loop :: "OptionImpl list \<Rightarrow> nat \<Rightarrow> jsval list \<Rightarrow> OptionImpl" where
  "optionDotAll_loop options i values =
     (if i < length options then
        (let option = options ! i in
         if OptionImpl_isSome option
         then optionDotAll_loop options (i + 1) (values @ [OptionImpl.value_field option])
         else OptionImpl_none ())
      else OptionImpl_some (JArray values))"
  by pat_completeness auto
termination
  by (relation "measure (\<lambda>(options, i, vs). length options - i)") auto

definition optionDotAll :: "OptionImpl list \<Rightarrow> OptionImpl" where
  "optionDotAll options = optionDotAll_loop options 0 []"

text \<open>
  \<open>function resultDotAll(results) {
     let values = [];
     for (let i = 0; i < results.length; i++) {
       const result = results[i];
       if (result.isOk()) { values.push(result.safeUnwrap()); }
       else { return result; } }
     return ResultImpl.ok(values); }\<close>
\<close>

function resultDotAll_loop :: "ResultImpl list \<Rightarrow> nat \<Rightarrow> jsval list \<Rightarrow> ResultImpl" where
  "resultDotAll_loop results i values =
     (if i < length results then
        (let result = results ! i in
         if ResultImpl_isOk result
         then resultDotAll_loop results (i + 1) (values @ [ResultImpl_safeUnwrap result])
         else result)
      else ResultImpl_ok (JArray values))"
  by pat_completeness auto
termination
  by (relation "measure (\<lambda>(results, i, vs). length results - i)") auto

definition resultDotAll :: "ResultImpl list \<Rightarrow> ResultImpl" where
  "resultDotAll results = resultDotAll_loop results 0 []"

text \<open>
  Each loop equation mentions the loop on its right-hand side, so the simplifier does not get
  it as a rewrite rule; the proofs below unfold it one iteration at a time.
\<close>

declare optionDotAll_loop.simps [simp del]

declare resultDotAll_loop.simps [simp del]

section \<open>Basic facts about the two representations\<close>

lemma ResultImpl_cases_ok_err:
  "(\<exists>t. r = ResultImpl_ok t) \<or> (\<exists>e. r = ResultImpl_err e)"
  by (cases r) (auto simp: ResultImpl_ok_def ResultImpl_err_def)

lemma ResultImpl_reverse_ok: "ResultImpl_reverse (ResultImpl_ok t) = ResultImpl_err t"
  by (simp add: ResultImpl_reverse_def ResultImpl_match_def ResultImpl_ok_def)

lemma ResultImpl_reverse_err: "ResultImpl_reverse (ResultImpl_err e) = ResultImpl_ok e"
  by (simp add: ResultImpl_reverse_def ResultImpl_match_def ResultImpl_err_def)

lemma js_simps:
  "js_return v s = (Inr v, s)"
  "js_throw e s = (Inl e, s)"
  "js_bind (js_return v) f s = f v s"
  by (simp_all add: js_return_def js_throw_def js_bind_def)

lemma UnwrapError_new_eq:
  "UnwrapError_new msg h =
     (Inr (JError (length h)), h @ [\<lparr>name = ''UnwrapError'', message = msg\<rparr>])"
  by (simp add: UnwrapError_new_def Error_new_def set_name_def js_bind_def js_return_def)

lemma OptionImpl_match_none: "OptionImpl_match (OptionImpl_none ()) n s = n ()"
  by (simp add: OptionImpl_match_def OptionImpl_isNone_def OptionImpl_none_def)

lemma OptionImpl_match_some: "OptionImpl_match (OptionImpl_some v) n s = s v"
  by (simp add: OptionImpl_match_def OptionImpl_isNone_def OptionImpl_some_def)

lemma ResultImpl_match_ok: "ResultImpl_match (ResultImpl_ok t) f g = f t"
  by (simp add: ResultImpl_match_def ResultImpl_ok_def)

lemma ResultImpl_match_err: "ResultImpl_match (ResultImpl_err e) f g = g e"
  by (simp add: ResultImpl_match_def ResultImpl_err_def)

lemma ResultImpl_value_field_ok: "ResultImpl.value_field (ResultImpl_ok t) = t"
  by (simp add: ResultImpl_ok_def)

lemma ResultImpl_value_field_err: "ResultImpl.value_field (ResultImpl_err e) = e"
  by (simp add: ResultImpl_err_def)

lemma OptionImpl_expect_none_string:
  "OptionImpl_expect (OptionImpl_none ()) (JString s) h =
     (Inl (JError (length h)), h @ [\<lparr>name = ''UnwrapError'', message = s\<rparr>])"
  by (simp add: OptionImpl_expect_def OptionImpl_match_none js_bind_def js_throw_def
        UnwrapError_new_eq)

lemma OptionImpl_expect_some: "OptionImpl_expect (OptionImpl_some v) m h = (Inr v, h)"
  by (simp add: OptionImpl_expect_def OptionImpl_match_some js_simps)

lemma ResultImpl_expect_err_string:
  "ResultImpl_expect (ResultImpl_err e) (JString s) h =
     (Inl (JError (length h)), h @ [\<lparr>name = ''UnwrapError'', message = s\<rparr>])"
  by (simp add: ResultImpl_expect_def ResultImpl_match_err js_bind_def js_throw_def
        UnwrapError_new_eq)

lemma ResultImpl_expect_ok: "ResultImpl_expect (ResultImpl_ok t) m h = (Inr t, h)"
  by (simp add: ResultImpl_expect_def ResultImpl_match_ok js_simps)

lemma ResultImpl_expectErr_ok_string:
  "ResultImpl_expectErr (ResultImpl_ok t) (JString s) h =
     (Inl (JError (length h)), h @ [\<lparr>name = ''UnwrapError'', message = s\<rparr>])"
  by (simp add: ResultImpl_expectErr_def ResultImpl_match_ok js_bind_def js_throw_def
        UnwrapError_new_eq)

lemma safeUnwrap_ok: "ResultImpl_safeUnwrap (ResultImpl_ok t) = t"
  by (simp add: ResultImpl_safeUnwrap_def ResultImpl_value_field_ok)

lemma safeUnwrap_agrees_with_unwrap:
  assumes "ResultImpl_isOk r"
  shows "ResultImpl_safeUnwrap r = ResultImpl.value_field r"
    and "ResultImpl_unwrap r h = (Inr (ResultImpl_safeUnwrap r), h)"
proof -
  show "ResultImpl_safeUnwrap r = ResultImpl.value_field r"
    by (simp add: ResultImpl_safeUnwrap_def)
  from assms obtain t' where "r = ResultImpl_ok t'"
    by (cases r) (simp add: ResultImpl_isOk_def ResultImpl_ok_def)
  then show "ResultImpl_unwrap r h = (Inr (ResultImpl_safeUnwrap r), h)"
    by (simp add: ResultImpl_unwrap_def ResultImpl_expect_ok safeUnwrap_ok)
qed

subsection \<open>The transposes on each constructible shape\<close>

lemma OptionImpl_transpose_none:
  "OptionImpl_transpose (OptionImpl_none ()) = Inr (ResultImpl_ok (JOption (OptionImpl_none ())))"
  by (simp add: OptionImpl_transpose_def OptionImpl_match_none)

lemma OptionImpl_transpose_some_ok:
  "OptionImpl_transpose (OptionImpl_some (JResult (ResultImpl_ok t))) =
     Inr (ResultImpl_ok (JOption (OptionImpl_some t)))"
  by (simp add: OptionImpl_transpose_def OptionImpl_match_some ResultImpl_match_ok)

lemma OptionImpl_transpose_some_err:
  "OptionImpl_transpose (OptionImpl_some (JResult (ResultImpl_err e))) =
     Inr (ResultImpl_err e)"
  by (simp add: OptionImpl_transpose_def OptionImpl_match_some ResultImpl_match_err)

lemma ResultImpl_transpose_ok_none:
  "ResultImpl_transpose (ResultImpl_ok (JOption (OptionImpl_none ()))) = Inr (OptionImpl_none ())"
  by (simp add: ResultImpl_transpose_def ResultImpl_match_ok OptionImpl_match_none)

lemma ResultImpl_transpose_ok_some:
  "ResultImpl_transpose (ResultImpl_ok (JOption (OptionImpl_some t))) =
     Inr (OptionImpl_some (JResult (ResultImpl_ok t)))"
  by (simp add: ResultImpl_transpose_def ResultImpl_match_ok OptionImpl_match_some)

lemma ResultImpl_transpose_err:
  "ResultImpl_transpose (ResultImpl_err e) = Inr (OptionImpl_some (JResult (ResultImpl_err e)))"
  by (simp add: ResultImpl_transpose_def ResultImpl_match_err)

lemma is_Option_of_Result_forms:
  "is_Option_of_Result opt \<longleftrightarrow>
     opt = OptionImpl_none ()
     \<or> (\<exists>t. opt = OptionImpl_some (JResult (ResultImpl_ok t)))
     \<or> (\<exists>e. opt = OptionImpl_some (JResult (ResultImpl_err e)))"
proof (cases opt)
  case (OptionImpl tag v)
  show ?thesis
  proof (cases tag)
    case True
    with OptionImpl show ?thesis
      by (auto simp: OptionImpl_none_def OptionImpl_some_def)
  next
    case False
    show ?thesis
    proof (cases "\<exists>r. v = JResult r")
      case True
      then obtain r where v: "v = JResult r" ..
      from ResultImpl_cases_ok_err [of r] OptionImpl False v show ?thesis
        by (auto simp: OptionImpl_none_def OptionImpl_some_def)
    next
      case nr: False
      with OptionImpl False show ?thesis
        by (cases v) (auto simp: OptionImpl_none_def OptionImpl_some_def)
    qed
  qed
qed

lemma is_Result_of_Option_forms:
  "is_Result_of_Option res \<longleftrightarrow>
     res = ResultImpl_ok (JOption (OptionImpl_none ()))
     \<or> (\<exists>t. res = ResultImpl_ok (JOption (OptionImpl_some t)))
     \<or> (\<exists>e. res = ResultImpl_err e)"
proof (cases res)
  case (ResultImpl tag v)
  show ?thesis
  proof (cases tag)
    case True
    with ResultImpl show ?thesis
      by (auto simp: ResultImpl_ok_def ResultImpl_err_def)
  next
    case False
    show ?thesis
    proof (cases "\<exists>p. v = JOption p")
      case True
      then obtain p where v: "v = JOption p" ..
      obtain ptag pv where p: "p = OptionImpl ptag pv" by (cases p)
      from ResultImpl False v p show ?thesis
        by (cases ptag)
           (auto simp: ResultImpl_ok_def ResultImpl_err_def OptionImpl_none_def
              OptionImpl_some_def)
    next
      case np: False
      with ResultImpl False show ?thesis
        by (cases v) (auto simp: ResultImpl_ok_def ResultImpl_err_def)
    qed
  qed
qed

subsection \<open>The two loops of \<open>index.ts\<close> in closed form\<close>

lemma OptionImpl_value_field_some: "OptionImpl.value_field (OptionImpl_some v) = v"
  by (simp add: OptionImpl_some_def)

lemma optionDotAll_loop_eq:
  "optionDotAll_loop options i vs =
     (if list_all OptionImpl_isSome (drop i options)
      then OptionImpl_some (JArray (vs @ map OptionImpl.value_field (drop i options)))
      else OptionImpl_none ())"
proof (induction options i vs rule: optionDotAll_loop.induct)
  case (1 options i vs)
  show ?case
  proof (cases "i < length options")
    case False
    then show ?thesis by (subst optionDotAll_loop.simps) simp
  next
    case True
    then have d: "drop i options = options ! i # drop (Suc i) options"
      by (simp add: Cons_nth_drop_Suc)
    show ?thesis
    proof (cases "OptionImpl_isSome (options ! i)")
      case False
      with True d show ?thesis by (subst optionDotAll_loop.simps) simp
    next
      case some: True
      from "1.IH" [OF True refl some]
      have "optionDotAll_loop options (i + 1) (vs @ [OptionImpl.value_field (options ! i)]) =
        (if list_all OptionImpl_isSome (drop (i + 1) options)
         then OptionImpl_some (JArray ((vs @ [OptionImpl.value_field (options ! i)]) @
                map OptionImpl.value_field (drop (i + 1) options)))
         else OptionImpl_none ())" .
      with True some d show ?thesis by (subst optionDotAll_loop.simps) simp
    qed
  qed
qed

lemma optionDotAll_eq:
  "optionDotAll options =
     (if list_all OptionImpl_isSome options
      then OptionImpl_some (JArray (map OptionImpl.value_field options))
      else OptionImpl_none ())"
  by (simp add: optionDotAll_def optionDotAll_loop_eq)

lemma resultDotAll_loop_eq:
  "resultDotAll_loop results i vs =
     (case find ResultImpl_isErr (drop i results) of
        Some e \<Rightarrow> e
      | None \<Rightarrow> ResultImpl_ok (JArray (vs @ map ResultImpl.value_field (drop i results))))"
proof (induction results i vs rule: resultDotAll_loop.induct)
  case (1 results i vs)
  show ?case
  proof (cases "i < length results")
    case False
    then show ?thesis by (subst resultDotAll_loop.simps) simp
  next
    case True
    then have d: "drop i results = results ! i # drop (Suc i) results"
      by (simp add: Cons_nth_drop_Suc)
    show ?thesis
    proof (cases "ResultImpl_isOk (results ! i)")
      case False
      then have "ResultImpl_isErr (results ! i)"
        by (simp add: ResultImpl_isOk_def ResultImpl_isErr_def)
      with False True d show ?thesis by (subst resultDotAll_loop.simps) simp
    next
      case ok: True
      then have ne: "\<not> ResultImpl_isErr (results ! i)"
        by (simp add: ResultImpl_isOk_def ResultImpl_isErr_def)
      from "1.IH" [OF True refl ok]
      have "resultDotAll_loop results (i + 1) (vs @ [ResultImpl_safeUnwrap (results ! i)]) =
        (case find ResultImpl_isErr (drop (i + 1) results) of
           Some e \<Rightarrow> e
         | None \<Rightarrow> ResultImpl_ok (JArray ((vs @ [ResultImpl_safeUnwrap (results ! i)]) @
                map ResultImpl.value_field (drop (i + 1) results))))" .
      with True ok ne d show ?thesis
        by (subst resultDotAll_loop.simps)
           (simp add: ResultImpl_safeUnwrap_def split: option.split)
    qed
  qed
qed

lemma resultDotAll_eq:
  "resultDotAll results =
     (case find ResultImpl_isErr results of
        Some e \<Rightarrow> e
      | None \<Rightarrow> ResultImpl_ok (JArray (map ResultImpl.value_field results)))"
  by (simp add: resultDotAll_def resultDotAll_loop_eq split: option.split)

lemma find_isErr_all_ok:
  "list_all ResultImpl_isOk rs \<Longrightarrow> find ResultImpl_isErr rs = None"
  by (induction rs) (auto simp: ResultImpl_isOk_def ResultImpl_isErr_def)

lemma find_isErr_first:
  "list_all ResultImpl_isOk pre \<Longrightarrow> ResultImpl_isErr e \<Longrightarrow>
     find ResultImpl_isErr (pre @ e # post) = Some e"
  by (induction pre) (auto simp: ResultImpl_isOk_def ResultImpl_isErr_def)

lemma not_all_ok_split:
  "\<not> list_all ResultImpl_isOk rs \<Longrightarrow>
     \<exists>pre e post. rs = pre @ e # post \<and> list_all ResultImpl_isOk pre \<and> ResultImpl_isErr e"
proof -
  assume "\<not> list_all ResultImpl_isOk rs"
  then have "\<exists>x\<in>set rs. ResultImpl_isErr x"
    by (auto simp: list_all_iff ResultImpl_isOk_def ResultImpl_isErr_def)
  from split_list_first_prop [OF this]
  obtain pre e post where "rs = pre @ e # post" "ResultImpl_isErr e"
    "\<forall>y\<in>set pre. \<not> ResultImpl_isErr y"
    by blast
  then show ?thesis
    by (auto simp: list_all_iff ResultImpl_isOk_def ResultImpl_isErr_def)
qed

lemma not_all_some_split:
  "\<not> list_all OptionImpl_isSome xs \<Longrightarrow>
     \<exists>pre x post. xs = pre @ x # post \<and> list_all OptionImpl_isSome pre \<and> OptionImpl_isNone x"
proof -
  assume "\<not> list_all OptionImpl_isSome xs"
  then have "\<exists>x\<in>set xs. OptionImpl_isNone x"
    by (auto simp: list_all_iff OptionImpl_isSome_def)
  from split_list_first_prop [OF this]
  obtain pre x post where "xs = pre @ x # post" "OptionImpl_isNone x"
    "\<forall>y\<in>set pre. \<not> OptionImpl_isNone y"
    by blast
  then show ?thesis
    by (auto simp: list_all_iff OptionImpl_isSome_def)
qed

section \<open>Claims\<close>

text \<open>
  C1. The two transposes are mutual inverses. For every option wrapping a result, that is
  \<open>none()\<close>, \<open>some(ok(t))\<close> or \<open>some(err(e))\<close>, \<open>OptionImpl.transpose\<close> succeeds and
  \<open>ResultImpl.transpose\<close> of what it returns is a value equal to the original. For every
  result wrapping an option, that is \<open>ok(none())\<close>, \<open>ok(some(t))\<close> or \<open>err(e)\<close>,
  \<open>ResultImpl.transpose\<close> succeeds and \<open>OptionImpl.transpose\<close> of what it returns is a value
  equal to the original.
\<close>

theorem transpose_round_trip:
  "(is_Option_of_Result opt \<longrightarrow>
      (\<exists>r. OptionImpl_transpose opt = Inr r \<and> ResultImpl_transpose r = Inr opt))
   \<and> (is_Result_of_Option res \<longrightarrow>
      (\<exists>p. ResultImpl_transpose res = Inr p \<and> OptionImpl_transpose p = Inr res))"
proof (intro conjI impI)
  assume "is_Option_of_Result opt"
  then consider "opt = OptionImpl_none ()"
    | t where "opt = OptionImpl_some (JResult (ResultImpl_ok t))"
    | e where "opt = OptionImpl_some (JResult (ResultImpl_err e))"
    unfolding is_Option_of_Result_forms by blast
  then show "\<exists>r. OptionImpl_transpose opt = Inr r \<and> ResultImpl_transpose r = Inr opt"
  proof cases
    case 1
    then show ?thesis
      by (simp add: OptionImpl_transpose_none ResultImpl_transpose_ok_none)
  next
    case 2
    then show ?thesis
      by (simp add: OptionImpl_transpose_some_ok ResultImpl_transpose_ok_some)
  next
    case 3
    then show ?thesis
      by (simp add: OptionImpl_transpose_some_err ResultImpl_transpose_err)
  qed
next
  assume "is_Result_of_Option res"
  then consider "res = ResultImpl_ok (JOption (OptionImpl_none ()))"
    | t where "res = ResultImpl_ok (JOption (OptionImpl_some t))"
    | e where "res = ResultImpl_err e"
    unfolding is_Result_of_Option_forms by blast
  then show "\<exists>p. ResultImpl_transpose res = Inr p \<and> OptionImpl_transpose p = Inr res"
  proof cases
    case 1
    then show ?thesis
      by (simp add: OptionImpl_transpose_none ResultImpl_transpose_ok_none)
  next
    case 2
    then show ?thesis
      by (simp add: OptionImpl_transpose_some_ok ResultImpl_transpose_ok_some)
  next
    case 3
    then show ?thesis
      by (simp add: OptionImpl_transpose_some_err ResultImpl_transpose_err)
  qed
qed

text \<open>The round trip at \<open>some(ok("foo"))\<close> and at \<open>err("bar")\<close>, the values of the tests.\<close>

theorem transpose_round_trip_witness:
  "is_Option_of_Result (OptionImpl_some (JResult (ResultImpl_ok (JString ''foo''))))
   \<and> OptionImpl_transpose (OptionImpl_some (JResult (ResultImpl_ok (JString ''foo'')))) =
       Inr (ResultImpl_ok (JOption (OptionImpl_some (JString ''foo''))))
   \<and> ResultImpl_transpose (ResultImpl_ok (JOption (OptionImpl_some (JString ''foo'')))) =
       Inr (OptionImpl_some (JResult (ResultImpl_ok (JString ''foo''))))
   \<and> is_Result_of_Option (ResultImpl_err (JString ''bar''))
   \<and> ResultImpl_transpose (ResultImpl_err (JString ''bar'')) =
       Inr (OptionImpl_some (JResult (ResultImpl_err (JString ''bar''))))
   \<and> OptionImpl_transpose (OptionImpl_some (JResult (ResultImpl_err (JString ''bar'')))) =
       Inr (ResultImpl_err (JString ''bar''))"
proof -
  have a: "is_Option_of_Result (OptionImpl_some (JResult (ResultImpl_ok (JString ''foo''))))"
    by (simp add: OptionImpl_some_def)
  have b: "is_Result_of_Option (ResultImpl_err (JString ''bar''))"
    by (simp add: ResultImpl_err_def)
  from a b
    transpose_round_trip [of "OptionImpl_some (JResult (ResultImpl_ok (JString ''foo'')))"
      "ResultImpl_err (JString ''bar'')"]
  show ?thesis
    by (auto simp: OptionImpl_transpose_some_ok ResultImpl_transpose_err)
qed

text \<open>
  C2 (as the code has it). \<open>unwrap()\<close> on \<open>none()\<close> raises a newly allocated error object
  whose \<open>name\<close> is \<open>"UnwrapError"\<close> and whose \<open>message\<close> is
  \<open>"Tried to call unwrap() on option.none()"\<close>, the text the test suite expects;
  \<open>unwrap()\<close> on \<open>some(v)\<close> returns \<open>v\<close>, raises nothing and allocates nothing.
\<close>

theorem unwrap_none_raises_UnwrapError:
  "OptionImpl_unwrap (OptionImpl_none ()) h =
     (Inl (JError (length h)),
      h @ [\<lparr>name = ''UnwrapError'', message = ''Tried to call unwrap() on option.none()''\<rparr>])
   \<and> thrown_name (OptionImpl_unwrap (OptionImpl_none ()) h) = Some ''UnwrapError''
   \<and> thrown_message (OptionImpl_unwrap (OptionImpl_none ()) h) =
       Some ''Tried to call unwrap() on option.none()''
   \<and> OptionImpl_unwrap (OptionImpl_some v) h = (Inr v, h)"
  by (simp add: OptionImpl_unwrap_def OptionImpl_expect_none_string OptionImpl_expect_some
        thrown_name_def thrown_message_def)

text \<open>
  C2 as stated names another message, \<open>"Tried to call unwrap() on absent"\<close>. In the empty
  store, the error raised by \<open>none().unwrap()\<close> carries the code's message, which is not
  that one.
\<close>

theorem unwrap_none_message_counterexample:
  "thrown_message (OptionImpl_unwrap (OptionImpl_none ()) []) =
     Some ''Tried to call unwrap() on option.none()''
   \<and> thrown_message (OptionImpl_unwrap (OptionImpl_none ()) []) \<noteq>
     Some ''Tried to call unwrap() on absent''"
  by (simp add: OptionImpl_unwrap_def OptionImpl_expect_none_string thrown_message_def)

text \<open>
  C3. Of the two accessors, \<open>safeUnwrap\<close> does what the claim says: \<open>ok(t).safeUnwrap()\<close>
  returns \<open>t\<close>, the value the checked \<open>unwrap()\<close> returns there without raising, and the
  call through the method lookup returns it too. \<open>safeUnwrapErr\<close> does not: the interface
  declares it, the class that implements the interface has no method of that name, and
  \<open>err("bar").safeUnwrapErr()\<close> raises a \<open>TypeError\<close> where the claim has it return \<open>"bar"\<close>.
\<close>

theorem safeUnwrapErr_not_implemented:
  "''safeUnwrapErr'' \<in> set Result_interface_members
   \<and> ''safeUnwrapErr'' \<notin> set ResultImpl_members
   \<and> ResultImpl_call (ResultImpl_err (JString ''bar'')) ''safeUnwrapErr'' =
       TypeError_not_a_function
   \<and> ResultImpl_call (ResultImpl_ok t) ''safeUnwrap'' = Returned t
   \<and> ResultImpl_safeUnwrap (ResultImpl_ok t) = t
   \<and> ResultImpl_unwrap (ResultImpl_ok t) h = (Inr (ResultImpl_safeUnwrap (ResultImpl_ok t)), h)"
proof -
  have declared: "''safeUnwrapErr'' \<in> set Result_interface_members"
    by (simp add: Result_interface_members_def)
  have missing: "''safeUnwrapErr'' \<notin> set ResultImpl_members"
    by (simp add: ResultImpl_members_def)
  have present: "''safeUnwrap'' \<in> set ResultImpl_members"
    by (simp add: ResultImpl_members_def)
  have call_err: "ResultImpl_call (ResultImpl_err (JString ''bar'')) ''safeUnwrapErr'' =
      TypeError_not_a_function"
    using missing by (simp add: ResultImpl_call_def)
  have call_ok: "ResultImpl_call (ResultImpl_ok t) ''safeUnwrap'' = Returned t"
    using present by (simp add: ResultImpl_call_def safeUnwrap_ok)
  from declared missing call_err call_ok show ?thesis
    by (simp add: safeUnwrap_ok ResultImpl_unwrap_def ResultImpl_expect_ok)
qed

text \<open>
  C4. When every element is \<open>ok\<close>, \<open>result.all\<close> returns \<open>ok\<close> of the array of the unwrapped
  values, in order; in particular \<open>result.all\<close> of \<open>ok(t1), ..., ok(tn)\<close> is
  \<open>ok([t1, ..., tn])\<close>. When an \<open>err\<close> element \<open>e\<close> follows a prefix of \<open>ok\<close> elements, the
  value returned is \<open>e\<close> itself, whatever comes after it: the elements behind the first
  \<open>err\<close> have no influence on the result. Every array with an element that is not \<open>ok\<close>
  is of that shape.
\<close>

theorem resultDotAll_first_err:
  "(list_all ResultImpl_isOk results \<longrightarrow>
      resultDotAll results = ResultImpl_ok (JArray (map ResultImpl_safeUnwrap results)))
   \<and> resultDotAll (map ResultImpl_ok ts) = ResultImpl_ok (JArray ts)
   \<and> (list_all ResultImpl_isOk pre \<and> ResultImpl_isErr e \<longrightarrow>
      resultDotAll (pre @ e # post) = e)
   \<and> (\<not> list_all ResultImpl_isOk results \<longrightarrow>
      (\<exists>pre e post. results = pre @ e # post \<and> list_all ResultImpl_isOk pre
         \<and> ResultImpl_isErr e \<and> resultDotAll results = e))"
proof (intro conjI impI)
  assume "list_all ResultImpl_isOk results"
  then show "resultDotAll results = ResultImpl_ok (JArray (map ResultImpl_safeUnwrap results))"
    by (simp add: resultDotAll_eq find_isErr_all_ok ResultImpl_safeUnwrap_def [abs_def])
next
  have "list_all ResultImpl_isOk (map ResultImpl_ok ts)"
    by (simp add: list_all_iff ResultImpl_isOk_def ResultImpl_ok_def)
  then have "resultDotAll (map ResultImpl_ok ts) =
      ResultImpl_ok (JArray (map ResultImpl.value_field (map ResultImpl_ok ts)))"
    by (simp add: resultDotAll_eq find_isErr_all_ok)
  also have "map ResultImpl.value_field (map ResultImpl_ok ts) = ts"
    by (induction ts) (simp_all add: ResultImpl_value_field_ok)
  finally show "resultDotAll (map ResultImpl_ok ts) = ResultImpl_ok (JArray ts)" .
next
  assume "list_all ResultImpl_isOk pre \<and> ResultImpl_isErr e"
  then show "resultDotAll (pre @ e # post) = e"
    by (simp add: resultDotAll_eq find_isErr_first)
next
  assume "\<not> list_all ResultImpl_isOk results"
  from not_all_ok_split [OF this]
  obtain pre e post where s: "results = pre @ e # post" "list_all ResultImpl_isOk pre"
    "ResultImpl_isErr e" by blast
  then have "resultDotAll results = e"
    by (simp add: resultDotAll_eq find_isErr_first)
  with s show "\<exists>pre e post. results = pre @ e # post \<and> list_all ResultImpl_isOk pre
         \<and> ResultImpl_isErr e \<and> resultDotAll results = e"
    by blast
qed

text \<open>
  The same at the arrays \<open>[ok(1), ok(2)]\<close> and \<open>[ok(1), err("x"), ok(3), err("y")]\<close>: the
  first failure wins.
\<close>

theorem resultDotAll_first_err_witness:
  "list_all ResultImpl_isOk [ResultImpl_ok (JNumber 1), ResultImpl_ok (JNumber 2)]
   \<and> resultDotAll [ResultImpl_ok (JNumber 1), ResultImpl_ok (JNumber 2)] =
       ResultImpl_ok (JArray [JNumber 1, JNumber 2])
   \<and> list_all ResultImpl_isOk [ResultImpl_ok (JNumber 1)]
   \<and> ResultImpl_isErr (ResultImpl_err (JString ''x''))
   \<and> \<not> list_all ResultImpl_isOk
         [ResultImpl_ok (JNumber 1), ResultImpl_err (JString ''x''),
          ResultImpl_ok (JNumber 3), ResultImpl_err (JString ''y'')]
   \<and> resultDotAll
         [ResultImpl_ok (JNumber 1), ResultImpl_err (JString ''x''),
          ResultImpl_ok (JNumber 3), ResultImpl_err (JString ''y'')] =
       ResultImpl_err (JString ''x'')"
proof -
  have a: "list_all ResultImpl_isOk [ResultImpl_ok (JNumber 1), ResultImpl_ok (JNumber 2)]"
    by (simp add: ResultImpl_isOk_def ResultImpl_ok_def)
  have b: "list_all ResultImpl_isOk [ResultImpl_ok (JNumber 1)]"
    by (simp add: ResultImpl_isOk_def ResultImpl_ok_def)
  have c: "ResultImpl_isErr (ResultImpl_err (JString ''x''))"
    by (simp add: ResultImpl_isErr_def ResultImpl_err_def)
  have d: "\<not> list_all ResultImpl_isOk
         [ResultImpl_ok (JNumber 1), ResultImpl_err (JString ''x''),
          ResultImpl_ok (JNumber 3), ResultImpl_err (JString ''y'')]"
    by (simp add: ResultImpl_isOk_def ResultImpl_ok_def ResultImpl_err_def)
  from a b c d
    resultDotAll_first_err [of "[ResultImpl_ok (JNumber 1), ResultImpl_ok (JNumber 2)]"
      "[JNumber 1, JNumber 2]" "[ResultImpl_ok (JNumber 1)]" "ResultImpl_err (JString ''x'')"
      "[ResultImpl_ok (JNumber 3), ResultImpl_err (JString ''y'')]"]
  show ?thesis
    by (simp add: ResultImpl_safeUnwrap_def ResultImpl_value_field_ok)
qed

text \<open>
  C5. When every element is \<open>some\<close>, \<open>option.all\<close> returns \<open>some\<close> of the array of the
  payloads, in order; in particular \<open>option.all\<close> of \<open>some(v1), ..., some(vn)\<close> is
  \<open>some([v1, ..., vn])\<close>. The result is \<open>some\<close> exactly when every element is \<open>some\<close>. When a
  \<open>none\<close> element follows a prefix of \<open>some\<close> elements, the result is \<open>none()\<close>, whatever
  comes after it: the elements behind the first \<open>none\<close> have no influence on the result.
  Every array with an element that is not \<open>some\<close> is of that shape.
\<close>

theorem optionDotAll_some_iff_all_some:
  "(list_all OptionImpl_isSome options \<longrightarrow>
      optionDotAll options = OptionImpl_some (JArray (map OptionImpl.value_field options)))
   \<and> optionDotAll (map OptionImpl_some vs) = OptionImpl_some (JArray vs)
   \<and> (OptionImpl_isSome (optionDotAll options) \<longleftrightarrow> list_all OptionImpl_isSome options)
   \<and> (list_all OptionImpl_isSome pre \<and> OptionImpl_isNone x \<longrightarrow>
      optionDotAll (pre @ x # post) = OptionImpl_none ())
   \<and> (\<not> list_all OptionImpl_isSome options \<longrightarrow>
      (\<exists>pre x post. options = pre @ x # post \<and> list_all OptionImpl_isSome pre
         \<and> OptionImpl_isNone x \<and> optionDotAll options = OptionImpl_none ()))"
proof (intro conjI impI)
  assume "list_all OptionImpl_isSome options"
  then show "optionDotAll options =
      OptionImpl_some (JArray (map OptionImpl.value_field options))"
    by (simp add: optionDotAll_eq)
next
  have "list_all OptionImpl_isSome (map OptionImpl_some vs)"
    by (simp add: list_all_iff OptionImpl_isSome_def OptionImpl_isNone_def OptionImpl_some_def)
  then have "optionDotAll (map OptionImpl_some vs) =
      OptionImpl_some (JArray (map OptionImpl.value_field (map OptionImpl_some vs)))"
    by (simp add: optionDotAll_eq)
  also have "map OptionImpl.value_field (map OptionImpl_some vs) = vs"
    by (induction vs) (simp_all add: OptionImpl_value_field_some)
  finally show "optionDotAll (map OptionImpl_some vs) = OptionImpl_some (JArray vs)" .
next
  show "OptionImpl_isSome (optionDotAll options) \<longleftrightarrow> list_all OptionImpl_isSome options"
    by (simp add: optionDotAll_eq OptionImpl_isSome_def OptionImpl_isNone_def
          OptionImpl_some_def OptionImpl_none_def)
next
  assume "list_all OptionImpl_isSome pre \<and> OptionImpl_isNone x"
  then show "optionDotAll (pre @ x # post) = OptionImpl_none ()"
    by (simp add: optionDotAll_eq OptionImpl_isSome_def)
next
  assume n: "\<not> list_all OptionImpl_isSome options"
  from not_all_some_split [OF this]
  obtain pre x post where s: "options = pre @ x # post" "list_all OptionImpl_isSome pre"
    "OptionImpl_isNone x" by blast
  from n have "optionDotAll options = OptionImpl_none ()"
    by (simp add: optionDotAll_eq)
  with s show "\<exists>pre x post. options = pre @ x # post \<and> list_all OptionImpl_isSome pre
         \<and> OptionImpl_isNone x \<and> optionDotAll options = OptionImpl_none ()"
    by blast
qed

text \<open>
  The same at the arrays of the test suite, \<open>[some("foo"), some(42), some(null)]\<close> and
  \<open>[some("foo"), none(), some(42), some(null)]\<close>.
\<close>

theorem optionDotAll_some_iff_all_some_witness:
  "list_all OptionImpl_isSome
       [OptionImpl_some (JString ''foo''), OptionImpl_some (JNumber 42), OptionImpl_some JNull]
   \<and> optionDotAll
       [OptionImpl_some (JString ''foo''), OptionImpl_some (JNumber 42), OptionImpl_some JNull] =
       OptionImpl_some (JArray [JString ''foo'', JNumber 42, JNull])
   \<and> list_all OptionImpl_isSome [OptionImpl_some (JString ''foo'')]
   \<and> OptionImpl_isNone (OptionImpl_none ())
   \<and> \<not> list_all OptionImpl_isSome
         [OptionImpl_some (JString ''foo''), OptionImpl_none (),
          OptionImpl_some (JNumber 42), OptionImpl_some JNull]
   \<and> optionDotAll
         [OptionImpl_some (JString ''foo''), OptionImpl_none (),
          OptionImpl_some (JNumber 42), OptionImpl_some JNull] = OptionImpl_none ()"
proof -
  have a: "list_all OptionImpl_isSome
       [OptionImpl_some (JString ''foo''), OptionImpl_some (JNumber 42), OptionImpl_some JNull]"
    by (simp add: OptionImpl_isSome_def OptionImpl_isNone_def OptionImpl_some_def)
  have b: "list_all OptionImpl_isSome [OptionImpl_some (JString ''foo'')]"
    by (simp add: OptionImpl_isSome_def OptionImpl_isNone_def OptionImpl_some_def)
  have c: "OptionImpl_isNone (OptionImpl_none ())"
    by (simp add: OptionImpl_isNone_def OptionImpl_none_def)
  have d: "\<not> list_all OptionImpl_isSome
         [OptionImpl_some (JString ''foo''), OptionImpl_none (),
          OptionImpl_some (JNumber 42), OptionImpl_some JNull]"
    by (simp add: OptionImpl_isSome_def OptionImpl_isNone_def OptionImpl_some_def
          OptionImpl_none_def)
  from a b c d
    optionDotAll_some_iff_all_some
      [of "[OptionImpl_some (JString ''foo''), OptionImpl_some (JNumber 42), OptionImpl_some JNull]"
        "[JString ''foo'', JNumber 42, JNull]" "[OptionImpl_some (JString ''foo'')]"
        "OptionImpl_none ()" "[OptionImpl_some (JNumber 42), OptionImpl_some JNull]"]
  show ?thesis
    by (simp add: OptionImpl_value_field_some)
qed

text \<open>
  C6. Called with an error object on the non-matching variant, \<open>expect\<close> (on \<open>none()\<close> and on
  \<open>err(e)\<close>) and \<open>expectErr\<close> (on \<open>ok(t)\<close>) raise that very reference and leave the store as
  it was: no object is allocated, so the raised value is neither a copy nor wrapped. Called
  with a string, they raise a reference to a newly allocated object, named
  \<open>"UnwrapError"\<close>, whose message is the string.
\<close>

theorem expect_raises_supplied_error:
  "OptionImpl_expect (OptionImpl_none ()) (JError a) h = (Inl (JError a), h)
   \<and> ResultImpl_expect (ResultImpl_err e) (JError a) h = (Inl (JError a), h)
   \<and> ResultImpl_expectErr (ResultImpl_ok t) (JError a) h = (Inl (JError a), h)
   \<and> OptionImpl_expect (OptionImpl_none ()) (JString s) h =
       (Inl (JError (length h)), h @ [\<lparr>name = ''UnwrapError'', message = s\<rparr>])
   \<and> ResultImpl_expect (ResultImpl_err e) (JString s) h =
       (Inl (JError (length h)), h @ [\<lparr>name = ''UnwrapError'', message = s\<rparr>])
   \<and> ResultImpl_expectErr (ResultImpl_ok t) (JString s) h =
       (Inl (JError (length h)), h @ [\<lparr>name = ''UnwrapError'', message = s\<rparr>])"
proof -
  have 1: "OptionImpl_expect (OptionImpl_none ()) (JError a) h = (Inl (JError a), h)"
    by (simp add: OptionImpl_expect_def OptionImpl_match_none js_bind_def js_throw_def
          js_return_def)
  have 2: "ResultImpl_expect (ResultImpl_err e) (JError a) h = (Inl (JError a), h)"
    by (simp add: ResultImpl_expect_def ResultImpl_match_err js_bind_def js_throw_def
          js_return_def)
  have 3: "ResultImpl_expectErr (ResultImpl_ok t) (JError a) h = (Inl (JError a), h)"
    by (simp add: ResultImpl_expectErr_def ResultImpl_match_ok js_bind_def js_throw_def
          js_return_def)
  from 1 2 3 show ?thesis
    by (simp add: OptionImpl_expect_none_string ResultImpl_expect_err_string
          ResultImpl_expectErr_ok_string)
qed

text \<open>
  C7. \<open>unwrapOrElse\<close> is lazy. On \<open>none()\<close> the call is exactly one call of the thunk, with
  no argument: same result, same effect on the state, for every thunk and every state. On
  \<open>some(v)\<close> it returns \<open>v\<close> and the state is untouched, whatever the thunk would have done.
  For results likewise: on \<open>err(e)\<close> it is one call of the thunk with \<open>e\<close>, on \<open>ok(v)\<close> it
  returns \<open>v\<close> with the state untouched. With the instrumented callback of the tests, the call
  log grows by exactly one entry on \<open>none()\<close> and \<open>err(e)\<close> and by none on \<open>some(v)\<close> and
  \<open>ok(v)\<close>.
\<close>

theorem unwrapOrElse_lazy:
  "OptionImpl_unwrapOrElse (OptionImpl_none ()) thunk s = thunk [] s
   \<and> OptionImpl_unwrapOrElse (OptionImpl_some v) thunk s = (Inr v, s)
   \<and> ResultImpl_unwrapOrElse (ResultImpl_err e) thunk s = thunk [e] s
   \<and> ResultImpl_unwrapOrElse (ResultImpl_ok v) thunk s = (Inr v, s)
   \<and> OptionImpl_unwrapOrElse (OptionImpl_none ()) (jest_fn impl) calls =
       (Inr (impl []), calls @ [[]])
   \<and> OptionImpl_unwrapOrElse (OptionImpl_some v) (jest_fn impl) calls = (Inr v, calls)
   \<and> ResultImpl_unwrapOrElse (ResultImpl_err e) (jest_fn impl) calls =
       (Inr (impl [e]), calls @ [[e]])
   \<and> ResultImpl_unwrapOrElse (ResultImpl_ok v) (jest_fn impl) calls = (Inr v, calls)"
  by (simp add: OptionImpl_unwrapOrElse_def ResultImpl_unwrapOrElse_def OptionImpl_match_none
        OptionImpl_match_some ResultImpl_match_ok ResultImpl_match_err js_return_def
        jest_fn_def ResultImpl_value_field_err)

text \<open>
  C8. \<open>reverse\<close> flips the tag and keeps the payload: \<open>ok(t)\<close> becomes \<open>err(t)\<close> and \<open>err(e)\<close>
  becomes \<open>ok(e)\<close>; applied twice it gives back a result equal to the one it started from,
  for every result.
\<close>

theorem reverse_self_inverse:
  "ResultImpl_reverse (ResultImpl_reverse r) = r
   \<and> ResultImpl_reverse (ResultImpl_ok t) = ResultImpl_err t
   \<and> ResultImpl_reverse (ResultImpl_err e) = ResultImpl_ok e
   \<and> ResultImpl.value_field (ResultImpl_reverse r) = ResultImpl.value_field r
   \<and> isErr_field (ResultImpl_reverse r) = (\<not> isErr_field r)"
proof -
  have twice: "ResultImpl_reverse (ResultImpl_reverse r) = r"
  proof -
    from ResultImpl_cases_ok_err [of r] show ?thesis
    proof
      assume "\<exists>t. r = ResultImpl_ok t"
      then obtain t where "r = ResultImpl_ok t" ..
      then show ?thesis by (simp add: ResultImpl_reverse_ok ResultImpl_reverse_err)
    next
      assume "\<exists>e. r = ResultImpl_err e"
      then obtain e where "r = ResultImpl_err e" ..
      then show ?thesis by (simp add: ResultImpl_reverse_ok ResultImpl_reverse_err)
    qed
  qed
  have payload: "ResultImpl.value_field (ResultImpl_reverse r) = ResultImpl.value_field r"
    by (cases r)
       (simp add: ResultImpl_reverse_def ResultImpl_match_def ResultImpl_ok_def
          ResultImpl_err_def)
  have tag: "isErr_field (ResultImpl_reverse r) = (\<not> isErr_field r)"
    by (cases r)
       (simp add: ResultImpl_reverse_def ResultImpl_match_def ResultImpl_ok_def
          ResultImpl_err_def)
  from twice payload tag show ?thesis
    by (simp add: ResultImpl_reverse_ok ResultImpl_reverse_err)
qed

text \<open>
  C9. \<open>option.fromVoidable\<close> returns \<open>none()\<close> when and only when its argument is a missing
  marker, \<open>undefined\<close> or \<open>null\<close>; on every other argument, the falsy \<open>0\<close>, \<open>""\<close> and
  \<open>false\<close> included, it returns \<open>some\<close> of the argument itself.
\<close>

theorem fromVoidable_none_iff_missing:
  "(OptionImpl_isNone (option_fromVoidable v) \<longleftrightarrow> v = JUndefined \<or> v = JNull)
   \<and> (v = JUndefined \<or> v = JNull \<longrightarrow> option_fromVoidable v = OptionImpl_none ())
   \<and> (v \<noteq> JUndefined \<and> v \<noteq> JNull \<longrightarrow> option_fromVoidable v = OptionImpl_some v)"
  by (simp add: option_fromVoidable_def OptionImpl_isNone_def OptionImpl_none_def
        OptionImpl_some_def)

text \<open>The same at the arguments of the test suite.\<close>

theorem fromVoidable_none_iff_missing_witness:
  "option_fromVoidable JUndefined = OptionImpl_none ()
   \<and> option_fromVoidable JNull = OptionImpl_none ()
   \<and> JNumber 0 \<noteq> JUndefined \<and> JNumber 0 \<noteq> JNull
   \<and> option_fromVoidable (JNumber 0) = OptionImpl_some (JNumber 0)
   \<and> JString '''' \<noteq> JUndefined \<and> JString '''' \<noteq> JNull
   \<and> option_fromVoidable (JString '''') = OptionImpl_some (JString '''')
   \<and> JBoolean False \<noteq> JUndefined \<and> JBoolean False \<noteq> JNull
   \<and> option_fromVoidable (JBoolean False) = OptionImpl_some (JBoolean False)"
  using fromVoidable_none_iff_missing [of JUndefined]
    fromVoidable_none_iff_missing [of JNull]
    fromVoidable_none_iff_missing [of "JNumber 0"]
    fromVoidable_none_iff_missing [of "JString ''''"]
    fromVoidable_none_iff_missing [of "JBoolean False"]
  by simp

text \<open>
  C10. Presence is read from the tag alone. For every payload \<open>v\<close>, \<open>undefined\<close> and
  \<open>null\<close> included, \<open>some(v).isSome()\<close> is true, \<open>some(v).isNone()\<close> is false and
  \<open>some(v).unwrap()\<close> returns \<open>v\<close> without raising; \<open>none()\<close> answers the other way round.
  \<open>some(undefined)\<close> and \<open>some(null)\<close> differ from \<open>none()\<close>, although \<open>some(undefined)\<close> and
  \<open>none()\<close> hold the same payload.
\<close>

theorem some_presence_by_tag:
  "OptionImpl_isSome (OptionImpl_some v)
   \<and> \<not> OptionImpl_isNone (OptionImpl_some v)
   \<and> OptionImpl_unwrap (OptionImpl_some v) h = (Inr v, h)
   \<and> OptionImpl_isNone (OptionImpl_none ())
   \<and> \<not> OptionImpl_isSome (OptionImpl_none ())
   \<and> OptionImpl_some JUndefined \<noteq> OptionImpl_none ()
   \<and> OptionImpl_some JNull \<noteq> OptionImpl_none ()
   \<and> OptionImpl.value_field (OptionImpl_some JUndefined) =
       OptionImpl.value_field (OptionImpl_none ())"
  by (simp add: OptionImpl_isSome_def OptionImpl_isNone_def OptionImpl_some_def
        OptionImpl_none_def OptionImpl_unwrap_def OptionImpl_expect_def OptionImpl_match_def
        js_return_def)

end
